theory Spec2Isabelle
  imports Main
begin

section \<open>CafeManager: the in-memory table and reservation store\<close>

text \<open>
  A shallow embedding of \<^verbatim>\<open>src/server/storage.ts\<close> (class \<^verbatim>\<open>MemStorage\<close>).
  Every method becomes a function that takes the store and returns its result
  together with the store after the call. The two readings of the clock,
  \<^verbatim>\<open>new Date()\<close> and \<^verbatim>\<open>new Date().toISOString().split('T')[0]\<close>, are
  the parameters \<open>now\<close> and \<open>today\<close> of the methods that read it.
  JavaScript numbers are modelled as \<open>int\<close>: the store computes only with
  the id counters, which are integers and exact below \<open>2 ^ 53\<close>, and copies
  every other number as it is. Strings are modelled as
  \<open>string\<close>, compared with \<open>=\<close> as \<^verbatim>\<open>===\<close> does; a value that may be
  \<^verbatim>\<open>null\<close> or \<^verbatim>\<open>undefined\<close> as an \<open>option\<close>.
\<close>

subsection \<open>Records of the schema\<close>

text \<open>
  Modelled from the spec: the types \<^verbatim>\<open>Table\<close>, \<^verbatim>\<open>InsertTable\<close>,
  \<^verbatim>\<open>Reservation\<close>, \<^verbatim>\<open>InsertReservation\<close> and \<^verbatim>\<open>TableWithReservations\<close> of
  \<^verbatim>\<open>@shared/schema\<close>, which is not among the sources. The fields are those
  that \<^verbatim>\<open>createTable\<close> and \<^verbatim>\<open>createReservation\<close> read and write, with the
  types of the spec's data model; the optional fields of the insert types are
  the ones the code defaults with \<^verbatim>\<open>||\<close>. Field names carry a prefix because
  the two entities share \<^verbatim>\<open>id\<close> and \<^verbatim>\<open>status\<close>.
\<close>

record table =
  t_id :: int
  t_number :: int
  t_name :: "string option"
  t_capacity :: int
  t_x :: int
  t_y :: int
  t_width :: int
  t_height :: int
  t_status :: string
  t_shape :: string
  t_hallId :: string

record insertTable =
  it_number :: int
  it_name :: "string option"
  it_capacity :: int
  it_x :: int
  it_y :: int
  it_width :: int
  it_height :: int
  it_status :: "string option"
  it_shape :: "string option"
  it_hallId :: "string option"

text \<open>
  \<^verbatim>\<open>Partial<InsertTable>\<close>: every key may be missing (\<open>None\<close>) or present
  with a value of the field's type.
\<close>

record partialInsertTable =
  pt_number :: "int option"
  pt_name :: "string option option"
  pt_capacity :: "int option"
  pt_x :: "int option"
  pt_y :: "int option"
  pt_width :: "int option"
  pt_height :: "int option"
  pt_status :: "string option"
  pt_shape :: "string option"
  pt_hallId :: "string option"

record reservation =
  r_id :: int
  r_tableId :: int
  r_customerName :: string
  r_customerPhone :: string
  r_guests :: int
  r_date :: string
  r_time :: string
  r_duration :: int
  r_comment :: "string option"
  r_status :: string
  r_hasTimeLimit :: bool
  r_startTime :: "string option"
  r_endTime :: "string option"
  r_createdAt :: int

record insertReservation =
  ir_tableId :: int
  ir_customerName :: string
  ir_customerPhone :: string
  ir_guests :: int
  ir_date :: string
  ir_time :: string
  ir_duration :: "int option"
  ir_comment :: "string option"
  ir_status :: "string option"
  ir_hasTimeLimit :: "bool option"
  ir_startTime :: "string option"
  ir_endTime :: "string option"

record partialInsertReservation =
  pr_tableId :: "int option"
  pr_customerName :: "string option"
  pr_customerPhone :: "string option"
  pr_guests :: "int option"
  pr_date :: "string option"
  pr_time :: "string option"
  pr_duration :: "int option"
  pr_comment :: "string option option"
  pr_status :: "string option"
  pr_hasTimeLimit :: "bool option"
  pr_startTime :: "string option option"
  pr_endTime :: "string option option"

text \<open>\<^verbatim>\<open>TableWithReservations\<close>: the fields of a table and two more.\<close>

record tableWithReservations = table +
  currentReservation :: "reservation option"
  todayReservations :: "reservation list"

subsection \<open>JavaScript's \<open>||\<close> and \<open>Map\<close>\<close>

text \<open>
  \<^verbatim>\<open>a || d\<close> is \<open>d\<close> when \<open>a\<close> is falsy: \<^verbatim>\<open>undefined\<close>, \<^verbatim>\<open>null\<close>, the empty
  string, the number 0 or \<^verbatim>\<open>false\<close>.
\<close>

definition or_string :: "string option \<Rightarrow> string \<Rightarrow> string" where
  "or_string a d = (case a of None \<Rightarrow> d | Some v \<Rightarrow> if v = [] then d else v)"

definition or_null :: "string option \<Rightarrow> string option" where
  "or_null a = (case a of None \<Rightarrow> None | Some v \<Rightarrow> if v = [] then None else Some v)"

definition or_number :: "int option \<Rightarrow> int \<Rightarrow> int" where
  "or_number a d = (case a of None \<Rightarrow> d | Some v \<Rightarrow> if v = 0 then d else v)"

definition or_boolean :: "bool option \<Rightarrow> bool \<Rightarrow> bool" where
  "or_boolean a d = (case a of None \<Rightarrow> d | Some v \<Rightarrow> if v then True else d)"

text \<open>
  A \<^verbatim>\<open>Map<number, V>\<close> is an association list in insertion order:
  \<^verbatim>\<open>set\<close> replaces the value of a key in place or appends a new key,
  \<^verbatim>\<open>delete\<close> removes the key, \<^verbatim>\<open>values()\<close> lists the values in order.
\<close>

type_synonym 'v jsmap = "(int \<times> 'v) list"

fun Map_get :: "'v jsmap \<Rightarrow> int \<Rightarrow> 'v option" where
  "Map_get [] k = None"
| "Map_get ((k', v) # m) k = (if k' = k then Some v else Map_get m k)"

fun Map_set :: "'v jsmap \<Rightarrow> int \<Rightarrow> 'v \<Rightarrow> 'v jsmap" where
  "Map_set [] k v = [(k, v)]"
| "Map_set ((k', v') # m) k v = (if k' = k then (k, v) # m else (k', v') # Map_set m k v)"

fun Map_delete :: "'v jsmap \<Rightarrow> int \<Rightarrow> 'v jsmap" where
  "Map_delete [] k = []"
| "Map_delete ((k', v) # m) k = (if k' = k then Map_delete m k else (k', v) # Map_delete m k)"

definition Map_values :: "'v jsmap \<Rightarrow> 'v list" where
  "Map_values m = map snd m"

subsection \<open>The store\<close>

record memStorage =
  tables :: "table jsmap"
  reservations :: "reservation jsmap"
  currentTableId :: int
  currentReservationId :: int

text \<open>Object spread \<^verbatim>\<open>{ ...table, ...updates }\<close>: a present key of \<open>updates\<close> wins.\<close>

definition spread_field :: "'a \<Rightarrow> 'a option \<Rightarrow> 'a" where
  "spread_field old upd = (case upd of None \<Rightarrow> old | Some v \<Rightarrow> v)"

definition spread_table :: "table \<Rightarrow> partialInsertTable \<Rightarrow> table" where
  "spread_table t u =
     \<lparr> t_id = t_id t,
       t_number = spread_field (t_number t) (pt_number u),
       t_name = spread_field (t_name t) (pt_name u),
       t_capacity = spread_field (t_capacity t) (pt_capacity u),
       t_x = spread_field (t_x t) (pt_x u),
       t_y = spread_field (t_y t) (pt_y u),
       t_width = spread_field (t_width t) (pt_width u),
       t_height = spread_field (t_height t) (pt_height u),
       t_status = spread_field (t_status t) (pt_status u),
       t_shape = spread_field (t_shape t) (pt_shape u),
       t_hallId = spread_field (t_hallId t) (pt_hallId u) \<rparr>"

definition spread_reservation :: "reservation \<Rightarrow> partialInsertReservation \<Rightarrow> reservation" where
  "spread_reservation r u =
     \<lparr> r_id = r_id r,
       r_tableId = spread_field (r_tableId r) (pr_tableId u),
       r_customerName = spread_field (r_customerName r) (pr_customerName u),
       r_customerPhone = spread_field (r_customerPhone r) (pr_customerPhone u),
       r_guests = spread_field (r_guests r) (pr_guests u),
       r_date = spread_field (r_date r) (pr_date u),
       r_time = spread_field (r_time r) (pr_time u),
       r_duration = spread_field (r_duration r) (pr_duration u),
       r_comment = spread_field (r_comment r) (pr_comment u),
       r_status = spread_field (r_status r) (pr_status u),
       r_hasTimeLimit = spread_field (r_hasTimeLimit r) (pr_hasTimeLimit u),
       r_startTime = spread_field (r_startTime r) (pr_startTime u),
       r_endTime = spread_field (r_endTime r) (pr_endTime u),
       r_createdAt = r_createdAt r \<rparr>"

text \<open>The object literals \<^verbatim>\<open>{}\<close> and \<^verbatim>\<open>{ status }\<close>.\<close>

definition no_table_updates :: partialInsertTable where
  "no_table_updates =
     \<lparr> pt_number = None, pt_name = None, pt_capacity = None, pt_x = None, pt_y = None,
       pt_width = None, pt_height = None, pt_status = None, pt_shape = None,
       pt_hallId = None \<rparr>"

definition no_reservation_updates :: partialInsertReservation where
  "no_reservation_updates =
     \<lparr> pr_tableId = None, pr_customerName = None, pr_customerPhone = None,
       pr_guests = None, pr_date = None, pr_time = None, pr_duration = None,
       pr_comment = None, pr_status = None, pr_hasTimeLimit = None,
       pr_startTime = None, pr_endTime = None \<rparr>"

subsection \<open>Tables\<close>

definition getTables :: "memStorage \<Rightarrow> table list \<times> memStorage" where
  "getTables s = (Map_values (tables s), s)"

definition getTable :: "memStorage \<Rightarrow> int \<Rightarrow> table option \<times> memStorage" where
  "getTable s i = (Map_get (tables s) i, s)"

definition createTable :: "memStorage \<Rightarrow> insertTable \<Rightarrow> table \<times> memStorage" where
  "createTable s tbl =
     (let i = currentTableId s;
          s1 = s\<lparr>currentTableId := i + 1\<rparr>;
          newTable =
            \<lparr> t_id = i,
              t_number = it_number tbl,
              t_name = or_null (it_name tbl),
              t_capacity = it_capacity tbl,
              t_x = it_x tbl,
              t_y = it_y tbl,
              t_width = it_width tbl,
              t_height = it_height tbl,
              t_status = or_string (it_status tbl) ''available'',
              t_shape = or_string (it_shape tbl) ''round'',
              t_hallId = or_string (it_hallId tbl) ''white'' \<rparr>
      in (newTable, s1\<lparr>tables := Map_set (tables s1) i newTable\<rparr>))"

definition updateTable ::
  "memStorage \<Rightarrow> int \<Rightarrow> partialInsertTable \<Rightarrow> table option \<times> memStorage" where
  "updateTable s i updates =
     (case Map_get (tables s) i of
        None \<Rightarrow> (None, s)
      | Some tbl \<Rightarrow>
          (let updatedTable = spread_table tbl updates
           in (Some updatedTable, s\<lparr>tables := Map_set (tables s) i updatedTable\<rparr>)))"

definition updateTableStatus ::
  "memStorage \<Rightarrow> int \<Rightarrow> string \<Rightarrow> table option \<times> memStorage" where
  "updateTableStatus s i status = updateTable s i (no_table_updates\<lparr>pt_status := Some status\<rparr>)"

subsection \<open>Reservations\<close>

definition getReservations :: "memStorage \<Rightarrow> reservation list \<times> memStorage" where
  "getReservations s = (Map_values (reservations s), s)"

definition getReservation :: "memStorage \<Rightarrow> int \<Rightarrow> reservation option \<times> memStorage" where
  "getReservation s i = (Map_get (reservations s) i, s)"

definition getReservationsByDate ::
  "memStorage \<Rightarrow> string \<Rightarrow> reservation list \<times> memStorage" where
  "getReservationsByDate s d = (filter (\<lambda>r. r_date r = d) (Map_values (reservations s)), s)"

definition getReservationsByTable ::
  "memStorage \<Rightarrow> int \<Rightarrow> reservation list \<times> memStorage" where
  "getReservationsByTable s tableId =
     (filter (\<lambda>r. r_tableId r = tableId) (Map_values (reservations s)), s)"

definition createReservation ::
  "int \<Rightarrow> memStorage \<Rightarrow> insertReservation \<Rightarrow> reservation \<times> memStorage" where
  "createReservation now s res =
     (let i = currentReservationId s;
          s1 = s\<lparr>currentReservationId := i + 1\<rparr>;
          newReservation =
            \<lparr> r_id = i,
              r_tableId = ir_tableId res,
              r_customerName = ir_customerName res,
              r_customerPhone = ir_customerPhone res,
              r_guests = ir_guests res,
              r_date = ir_date res,
              r_time = ir_time res,
              r_duration = or_number (ir_duration res) 120,
              r_comment = or_null (ir_comment res),
              r_status = or_string (ir_status res) ''active'',
              r_hasTimeLimit = or_boolean (ir_hasTimeLimit res) False,
              r_startTime = or_null (ir_startTime res),
              r_endTime = or_null (ir_endTime res),
              r_createdAt = now \<rparr>;
          s2 = s1\<lparr>reservations := Map_set (reservations s1) i newReservation\<rparr>;
          s3 = snd (updateTableStatus s2 (ir_tableId res) ''reserved'')
      in (newReservation, s3))"

definition updateReservation ::
  "memStorage \<Rightarrow> int \<Rightarrow> partialInsertReservation \<Rightarrow> reservation option \<times> memStorage" where
  "updateReservation s i updates =
     (case Map_get (reservations s) i of
        None \<Rightarrow> (None, s)
      | Some res \<Rightarrow>
          (let updatedReservation = spread_reservation res updates
           in (Some updatedReservation,
               s\<lparr>reservations := Map_set (reservations s) i updatedReservation\<rparr>)))"

definition deleteReservation :: "string \<Rightarrow> memStorage \<Rightarrow> int \<Rightarrow> bool \<times> memStorage" where
  "deleteReservation today s i =
     (case Map_get (reservations s) i of
        None \<Rightarrow> (False, s)
      | Some res \<Rightarrow>
          (let s1 = s\<lparr>reservations := Map_delete (reservations s) i\<rparr>;
               (tableReservations, s2) = getReservationsByTable s1 (r_tableId res);
               todayActiveReservations =
                 filter (\<lambda>r. r_date r = today \<and> r_status r = ''active'') tableReservations;
               s3 = (if length todayActiveReservations = 0
                     then snd (updateTableStatus s2 (r_tableId res) ''available'')
                     else s2)
           in (True, s3)))"

subsection \<open>The combined query\<close>

text \<open>
  The \<^verbatim>\<open>for ... of\<close> loop over \<^verbatim>\<open>allTables\<close>, with the array being filled
  as accumulator; each \<^verbatim>\<open>push\<close> appends at the end.
\<close>

fun tablesWithReservations_loop ::
  "string \<Rightarrow> table list \<Rightarrow> tableWithReservations list \<Rightarrow> memStorage \<Rightarrow>
   tableWithReservations list \<times> memStorage" where
  "tablesWithReservations_loop targetDate [] acc s = (acc, s)"
| "tablesWithReservations_loop targetDate (tbl # rest) acc s =
     (let (tableReservations, s1) = getReservationsByTable s (t_id tbl);
          todayRes = filter (\<lambda>r. r_date r = targetDate) tableReservations;
          currentRes = find (\<lambda>r. r_status r = ''active'') todayRes
      in tablesWithReservations_loop targetDate rest
           (acc @ [table.extend tbl (tableWithReservations.fields currentRes todayRes)]) s1)"

definition getTablesWithReservations ::
  "string \<Rightarrow> memStorage \<Rightarrow> string option \<Rightarrow> tableWithReservations list \<times> memStorage" where
  "getTablesWithReservations today s date =
     (let (allTables, s1) = getTables s;
          targetDate = or_string date today
      in tablesWithReservations_loop targetDate allTables [] s1)"

subsection \<open>The constructor and its seed data\<close>

text \<open>
  The object literals of \<^verbatim>\<open>initializeDefaultTables\<close>. The Cyrillic names are
  written as the bytes of their UTF-8 encoding; the store only ever compares
  strings and tests them for emptiness.
\<close>

definition mkInsertTable ::
  "int \<Rightarrow> string \<Rightarrow> int \<Rightarrow> int \<Rightarrow> int \<Rightarrow> int \<Rightarrow> int \<Rightarrow> string \<Rightarrow> string \<Rightarrow> string \<Rightarrow> insertTable" where
  "mkInsertTable n nm c x y w h st sh hall =
     \<lparr> it_number = n, it_name = Some nm, it_capacity = c, it_x = x, it_y = y,
       it_width = w, it_height = h, it_status = Some st, it_shape = Some sh,
       it_hallId = Some hall \<rparr>"

definition mkInsertReservation ::
  "int \<Rightarrow> string \<Rightarrow> string \<Rightarrow> int \<Rightarrow> string \<Rightarrow> string \<Rightarrow> int \<Rightarrow> string \<Rightarrow> string \<Rightarrow> insertReservation" where
  "mkInsertReservation tid nm phone g d tm dur c st =
     \<lparr> ir_tableId = tid, ir_customerName = nm, ir_customerPhone = phone, ir_guests = g,
       ir_date = d, ir_time = tm, ir_duration = Some dur, ir_comment = Some c,
       ir_status = Some st, ir_hasTimeLimit = None, ir_startTime = None,
       ir_endTime = None \<rparr>"

definition defaultTables :: "insertTable list" where
  "defaultTables = [
    mkInsertTable 1
      [CHR 0xD0, CHR 0x9E, CHR 0xD1, CHR 0x81, CHR 0xD0, CHR 0xBD, CHR 0xD0, CHR 0xBE,
       CHR 0xD0, CHR 0xB2, CHR 0xD0, CHR 0xBD, CHR 0xD0, CHR 0xBE, CHR 0xD0, CHR 0xB9]
      2 50 80 60 60 ''available'' ''round'' ''white'',
    mkInsertTable 2
      [CHR 0xD0, CHR 0xA3, CHR 0x20, CHR 0xD0, CHR 0xBE, CHR 0xD0, CHR 0xBA, CHR 0xD0,
       CHR 0xBD, CHR 0xD0, CHR 0xB0]
      2 150 80 60 60 ''reserved'' ''round'' ''white'',
    mkInsertTable 3
      [CHR 0xD0, CHR 0xA1, CHR 0xD0, CHR 0xB5, CHR 0xD0, CHR 0xBC, CHR 0xD0, CHR 0xB5,
       CHR 0xD0, CHR 0xB9, CHR 0xD0, CHR 0xBD, CHR 0xD1, CHR 0x8B, CHR 0xD0, CHR 0xB9]
      4 250 80 80 60 ''occupied'' ''rectangular'' ''white'',
    mkInsertTable 4
      [CHR 0xD0, CHR 0x91, CHR 0xD0, CHR 0xBE, CHR 0xD0, CHR 0xBB, CHR 0xD1, CHR 0x8C,
       CHR 0xD1, CHR 0x88, CHR 0xD0, CHR 0xBE, CHR 0xD0, CHR 0xB9]
      6 50 200 100 60 ''available'' ''rectangular'' ''white'',
    mkInsertTable 5
      [CHR 0xD0, CHR 0x91, CHR 0xD0, CHR 0xB0, CHR 0xD1, CHR 0x80, CHR 0xD0, CHR 0xBD,
       CHR 0xD0, CHR 0xB0, CHR 0xD1, CHR 0x8F, CHR 0x20, CHR 0xD1, CHR 0x81, CHR 0xD1,
       CHR 0x82, CHR 0xD0, CHR 0xBE, CHR 0xD0, CHR 0xB9, CHR 0xD0, CHR 0xBA, CHR 0xD0,
       CHR 0xB0]
      2 50 80 60 60 ''reserved'' ''round'' ''bar'',
    mkInsertTable 6
      [CHR 0xD0, CHR 0x92, CHR 0xD1, CHR 0x8B, CHR 0xD1, CHR 0x81, CHR 0xD0, CHR 0xBE,
       CHR 0xD0, CHR 0xBA, CHR 0xD0, CHR 0xB8, CHR 0xD0, CHR 0xB9]
      4 150 80 80 60 ''available'' ''rectangular'' ''bar'',
    mkInsertTable 7
      [CHR 0xD0, CHR 0x9A, CHR 0xD0, CHR 0xBE, CHR 0xD0, CHR 0xBA, CHR 0xD1, CHR 0x82,
       CHR 0xD0, CHR 0xB5, CHR 0xD0, CHR 0xB9, CHR 0xD0, CHR 0xBB, CHR 0xD1, CHR 0x8C,
       CHR 0xD0, CHR 0xBD, CHR 0xD1, CHR 0x8B, CHR 0xD0, CHR 0xB9]
      2 250 80 60 60 ''occupied'' ''round'' ''bar'',
    mkInsertTable 8
      [CHR 0xD0, CHR 0x9F, CHR 0xD0, CHR 0xBE, CHR 0xD0, CHR 0xB4, CHR 0x20, CHR 0xD0,
       CHR 0xB0, CHR 0xD1, CHR 0x80, CHR 0xD0, CHR 0xBA, CHR 0xD0, CHR 0xBE, CHR 0xD0,
       CHR 0xB9]
      6 100 120 100 60 ''available'' ''rectangular'' ''vaulted'',
    mkInsertTable 9
      [CHR 0xD0, CHR 0xA6, CHR 0xD0, CHR 0xB5, CHR 0xD0, CHR 0xBD, CHR 0xD1, CHR 0x82,
       CHR 0xD1, CHR 0x80, CHR 0xD0, CHR 0xB0, CHR 0xD0, CHR 0xBB, CHR 0xD1, CHR 0x8C,
       CHR 0xD0, CHR 0xBD, CHR 0xD1, CHR 0x8B, CHR 0xD0, CHR 0xB9]
      8 250 120 120 80 ''reserved'' ''rectangular'' ''vaulted'',
    mkInsertTable 10
      [CHR 0xD0, CHR 0xA3, CHR 0xD0, CHR 0xB3, CHR 0xD0, CHR 0xBE, CHR 0xD0, CHR 0xBB,
       CHR 0xD0, CHR 0xBE, CHR 0xD0, CHR 0xBA]
      4 50 250 80 60 ''available'' ''rectangular'' ''vaulted'',
    mkInsertTable 11
      [CHR 0xD0, CHR 0xA2, CHR 0xD0, CHR 0xB8, CHR 0xD1, CHR 0x85, CHR 0xD0, CHR 0xB8,
       CHR 0xD0, CHR 0xB9]
      2 80 100 60 60 ''available'' ''round'' ''fourth'',
    mkInsertTable 12
      [CHR 0xD0, CHR 0x94, CHR 0xD0, CHR 0xB5, CHR 0xD0, CHR 0xBB, CHR 0xD0, CHR 0xBE,
       CHR 0xD0, CHR 0xB2, CHR 0xD0, CHR 0xBE, CHR 0xD0, CHR 0xB9]
      4 180 100 80 60 ''reserved'' ''rectangular'' ''fourth'',
    mkInsertTable 13
      [CHR 0xD0, CHR 0x9F, CHR 0xD1, CHR 0x80, CHR 0xD0, CHR 0xB5, CHR 0xD0, CHR 0xB7,
       CHR 0xD0, CHR 0xB8, CHR 0xD0, CHR 0xB4, CHR 0xD0, CHR 0xB8, CHR 0xD1, CHR 0x83,
       CHR 0xD0, CHR 0xBC]
      10 100 150 140 100 ''reserved'' ''rectangular'' ''banquet'',
    mkInsertTable 14
      [CHR 0xD0, CHR 0x93, CHR 0xD0, CHR 0xBB, CHR 0xD0, CHR 0xB0, CHR 0xD0, CHR 0xB2,
       CHR 0xD0, CHR 0xBD, CHR 0xD1, CHR 0x8B, CHR 0xD0, CHR 0xB9]
      12 300 150 160 100 ''available'' ''rectangular'' ''banquet'',
    mkInsertTable 15
      [CHR 0xD0, CHR 0x9F, CHR 0xD1, CHR 0x80, CHR 0xD0, CHR 0xB0, CHR 0xD0, CHR 0xB7,
       CHR 0xD0, CHR 0xB4, CHR 0xD0, CHR 0xBD, CHR 0xD0, CHR 0xB8, CHR 0xD1, CHR 0x87,
       CHR 0xD0, CHR 0xBD, CHR 0xD1, CHR 0x8B, CHR 0xD0, CHR 0xB9]
      8 50 300 120 80 ''occupied'' ''rectangular'' ''banquet'']"

definition sampleReservations :: "string \<Rightarrow> insertReservation list" where
  "sampleReservations today = [
    mkInsertReservation 2
      [CHR 0xD0, CHR 0x98, CHR 0xD0, CHR 0xB2, CHR 0xD0, CHR 0xB0, CHR 0xD0, CHR 0xBD,
       CHR 0x20, CHR 0xD0, CHR 0xA1, CHR 0xD0, CHR 0xBC, CHR 0xD0, CHR 0xB8, CHR 0xD1,
       CHR 0x80, CHR 0xD0, CHR 0xBD, CHR 0xD0, CHR 0xBE, CHR 0xD0, CHR 0xB2]
      ''+7 (999) 123-45-67'' 4 today ''19:30'' 120
      [CHR 0xD0, CHR 0x9E, CHR 0xD0, CHR 0xBA, CHR 0xD0, CHR 0xBD, CHR 0xD0, CHR 0xBE,
       CHR 0x2C, CHR 0x20, CHR 0xD0, CHR 0xBF, CHR 0xD0, CHR 0xBE, CHR 0xD0, CHR 0xB6,
       CHR 0xD0, CHR 0xB0, CHR 0xD0, CHR 0xBB, CHR 0xD1, CHR 0x83, CHR 0xD0, CHR 0xB9,
       CHR 0xD1, CHR 0x81, CHR 0xD1, CHR 0x82, CHR 0xD0, CHR 0xB0, CHR 0x2E, CHR 0x20,
       CHR 0xD0, CHR 0x94, CHR 0xD0, CHR 0xB5, CHR 0xD0, CHR 0xBD, CHR 0xD1, CHR 0x8C,
       CHR 0x20, CHR 0xD1, CHR 0x80, CHR 0xD0, CHR 0xBE, CHR 0xD0, CHR 0xB6, CHR 0xD0,
       CHR 0xB4, CHR 0xD0, CHR 0xB5, CHR 0xD0, CHR 0xBD, CHR 0xD0, CHR 0xB8, CHR 0xD1,
       CHR 0x8F, CHR 0x21] ''active'',
    mkInsertReservation 3
      [CHR 0xD0, CHR 0x9C, CHR 0xD0, CHR 0xB0, CHR 0xD1, CHR 0x80, CHR 0xD0, CHR 0xB8,
       CHR 0xD1, CHR 0x8F, CHR 0x20, CHR 0xD0, CHR 0x9A, CHR 0xD0, CHR 0xBE, CHR 0xD0,
       CHR 0xB7, CHR 0xD0, CHR 0xBB, CHR 0xD0, CHR 0xBE, CHR 0xD0, CHR 0xB2, CHR 0xD0,
       CHR 0xB0]
      ''+7 (999) 765-43-21'' 2 today ''12:15'' 90
      '''' ''active'',
    mkInsertReservation 5
      [CHR 0xD0, CHR 0x90, CHR 0xD0, CHR 0xBD, CHR 0xD0, CHR 0xBD, CHR 0xD0, CHR 0xB0,
       CHR 0x20, CHR 0xD0, CHR 0xA1, CHR 0xD0, CHR 0xB8, CHR 0xD0, CHR 0xB4, CHR 0xD0,
       CHR 0xBE, CHR 0xD1, CHR 0x80, CHR 0xD0, CHR 0xBE, CHR 0xD0, CHR 0xB2, CHR 0xD0,
       CHR 0xB0]
      ''+7 (999) 456-78-90'' 4 today ''19:15'' 120
      '''' ''active'']"

definition seedTable :: "insertTable \<Rightarrow> memStorage \<Rightarrow> memStorage" where
  "seedTable tbl s =
     (let i = currentTableId s;
          s1 = s\<lparr>currentTableId := i + 1\<rparr>;
          newTable =
            \<lparr> t_id = i,
              t_number = it_number tbl,
              t_name = or_null (it_name tbl),
              t_capacity = it_capacity tbl,
              t_x = it_x tbl,
              t_y = it_y tbl,
              t_width = it_width tbl,
              t_height = it_height tbl,
              t_status = or_string (it_status tbl) ''available'',
              t_shape = or_string (it_shape tbl) ''round'',
              t_hallId = or_string (it_hallId tbl) ''white'' \<rparr>
      in s1\<lparr>tables := Map_set (tables s1) (t_id newTable) newTable\<rparr>)"

definition seedReservation :: "int \<Rightarrow> insertReservation \<Rightarrow> memStorage \<Rightarrow> memStorage" where
  "seedReservation now res s =
     (let i = currentReservationId s;
          s1 = s\<lparr>currentReservationId := i + 1\<rparr>;
          newReservation =
            \<lparr> r_id = i,
              r_tableId = ir_tableId res,
              r_customerName = ir_customerName res,
              r_customerPhone = ir_customerPhone res,
              r_guests = ir_guests res,
              r_date = ir_date res,
              r_time = ir_time res,
              r_duration = or_number (ir_duration res) 120,
              r_comment = or_null (ir_comment res),
              r_status = or_string (ir_status res) ''active'',
              r_hasTimeLimit = False,
              r_startTime = None,
              r_endTime = None,
              r_createdAt = now \<rparr>
      in s1\<lparr>reservations := Map_set (reservations s1) (r_id newReservation) newReservation\<rparr>)"

definition initializeDefaultTables :: "string \<Rightarrow> int \<Rightarrow> memStorage \<Rightarrow> memStorage" where
  "initializeDefaultTables today now s =
     fold (seedReservation now) (sampleReservations today) (fold seedTable defaultTables s)"

text \<open>The constructor: the four field initialisers, then the seeding.\<close>

definition emptyStorage :: memStorage where
  "emptyStorage =
     \<lparr> tables = [], reservations = [], currentTableId = 1, currentReservationId = 1 \<rparr>"

definition MemStorage :: "string \<Rightarrow> int \<Rightarrow> memStorage" where
  "MemStorage today now = initializeDefaultTables today now emptyStorage"

subsection \<open>Well-formed and reachable stores\<close>

text \<open>
  No key occurs twice in a map, every key is the id of the record stored under
  it, and ids start at 1 and lie below the counter that assigns the next one.
\<close>

definition store_inv :: "memStorage \<Rightarrow> bool" where
  "store_inv s \<longleftrightarrow>
     1 \<le> currentTableId s \<and> 1 \<le> currentReservationId s \<and>
     distinct (map fst (tables s)) \<and>
     (\<forall>p \<in> set (tables s). t_id (snd p) = fst p \<and> 1 \<le> fst p \<and> fst p < currentTableId s) \<and>
     distinct (map fst (reservations s)) \<and>
     (\<forall>p \<in> set (reservations s).
        r_id (snd p) = fst p \<and> 1 \<le> fst p \<and> fst p < currentReservationId s)"

text \<open>
  The stores a process can be in: the constructor's, and the store after any
  mutating method (\<^verbatim>\<open>updateTableStatus\<close> is an \<^verbatim>\<open>updateTable\<close>).
\<close>

inductive reachable :: "memStorage \<Rightarrow> bool" where
  r_new: "reachable (MemStorage today now)"
| r_createTable: "reachable s \<Longrightarrow> reachable (snd (createTable s tbl))"
| r_updateTable: "reachable s \<Longrightarrow> reachable (snd (updateTable s i tu))"
| r_createReservation: "reachable s \<Longrightarrow> reachable (snd (createReservation now s res))"
| r_updateReservation: "reachable s \<Longrightarrow> reachable (snd (updateReservation s i ru))"
| r_deleteReservation: "reachable s \<Longrightarrow> reachable (snd (deleteReservation today s i))"

text \<open>\<open>later s s'\<close>: the store \<open>s'\<close> is \<open>s\<close> after any number of mutating calls.\<close>

inductive later :: "memStorage \<Rightarrow> memStorage \<Rightarrow> bool" where
  l_refl: "later s s"
| l_createTable: "later s s' \<Longrightarrow> later s (snd (createTable s' tbl))"
| l_updateTable: "later s s' \<Longrightarrow> later s (snd (updateTable s' i tu))"
| l_createReservation: "later s s' \<Longrightarrow> later s (snd (createReservation now s' res))"
| l_updateReservation: "later s s' \<Longrightarrow> later s (snd (updateReservation s' i ru))"
| l_deleteReservation: "later s s' \<Longrightarrow> later s (snd (deleteReservation today s' i))"

subsection \<open>The view a table should get\<close>

text \<open>
  The view of one table for a date, as the specification words it: the
  reservations of the store, in store order, for that table and that date, and
  the first active one among them.
\<close>

definition tableView :: "memStorage \<Rightarrow> string \<Rightarrow> table \<Rightarrow> tableWithReservations" where
  "tableView s d tbl =
     (let rs = filter (\<lambda>r. r_tableId r = t_id tbl \<and> r_date r = d) (Map_values (reservations s))
      in table.extend tbl
           (tableWithReservations.fields (find (\<lambda>r. r_status r = ''active'') rs) rs))"

subsection \<open>Concrete stores and inputs\<close>

definition exampleToday :: string where
  "exampleToday = ''2024-06-01''"

definition exampleStore :: memStorage where
  "exampleStore = MemStorage exampleToday 0"

text \<open>The first seeded table, as the constructor stores it.\<close>

definition table1 :: table where
  "table1 =
     \<lparr> t_id = 1, t_number = 1,
       t_name = Some
         [CHR 0xD0, CHR 0x9E, CHR 0xD1, CHR 0x81, CHR 0xD0, CHR 0xBD, CHR 0xD0, CHR 0xBE,
          CHR 0xD0, CHR 0xB2, CHR 0xD0, CHR 0xBD, CHR 0xD0, CHR 0xBE, CHR 0xD0, CHR 0xB9],
       t_capacity = 2, t_x = 50, t_y = 80, t_width = 60, t_height = 60,
       t_status = ''available'', t_shape = ''round'', t_hallId = ''white'' \<rparr>"

text \<open>A reservation of table 1 for a day that is not \<open>exampleToday\<close>.\<close>

definition pastReservation :: insertReservation where
  "pastReservation =
     \<lparr> ir_tableId = 1, ir_customerName = ''A'', ir_customerPhone = ''1'', ir_guests = 2,
       ir_date = ''2024-01-01'', ir_time = ''19:00'', ir_duration = None, ir_comment = None,
       ir_status = None, ir_hasTimeLimit = None, ir_startTime = None, ir_endTime = None \<rparr>"

text \<open>A second reservation of table 2 for \<open>exampleToday\<close>.\<close>

definition todayReservation :: insertReservation where
  "todayReservation =
     \<lparr> ir_tableId = 2, ir_customerName = ''B'', ir_customerPhone = ''2'', ir_guests = 3,
       ir_date = exampleToday, ir_time = ''21:00'', ir_duration = None, ir_comment = None,
       ir_status = None, ir_hasTimeLimit = None, ir_startTime = None, ir_endTime = None \<rparr>"

text \<open>A reservation without time limit that still carries a start and an end time.\<close>

definition untimedReservation :: insertReservation where
  "untimedReservation =
     \<lparr> ir_tableId = 1, ir_customerName = ''C'', ir_customerPhone = ''3'', ir_guests = 2,
       ir_date = exampleToday, ir_time = ''18:00'', ir_duration = None, ir_comment = None,
       ir_status = None, ir_hasTimeLimit = Some False, ir_startTime = Some ''18:00'',
       ir_endTime = Some ''20:00'' \<rparr>"

text \<open>A reservation whose start time is the empty string.\<close>

definition blankTimesReservation :: insertReservation where
  "blankTimesReservation =
     \<lparr> ir_tableId = 1, ir_customerName = ''E'', ir_customerPhone = ''5'', ir_guests = 2,
       ir_date = exampleToday, ir_time = ''18:00'', ir_duration = None, ir_comment = None,
       ir_status = None, ir_hasTimeLimit = None, ir_startTime = Some [],
       ir_endTime = None \<rparr>"

text \<open>A reservation of a table that does not exist.\<close>

definition strayReservation :: insertReservation where
  "strayReservation =
     \<lparr> ir_tableId = 99, ir_customerName = ''D'', ir_customerPhone = ''4'', ir_guests = 2,
       ir_date = exampleToday, ir_time = ''12:00'', ir_duration = None, ir_comment = None,
       ir_status = None, ir_hasTimeLimit = None, ir_startTime = None, ir_endTime = None \<rparr>"

text \<open>A table input with every optional field unset, and one with status \<open>available\<close>.\<close>

definition bareTable :: insertTable where
  "bareTable =
     \<lparr> it_number = 16, it_name = None, it_capacity = 4, it_x = 10, it_y = 20,
       it_width = 60, it_height = 60, it_status = None, it_shape = None,
       it_hallId = None \<rparr>"

definition availableTable :: insertTable where
  "availableTable = bareTable\<lparr>it_number := 1, it_status := Some ''available''\<rparr>"

text \<open>A store with one table, id 1 and status \<open>available\<close>, and no reservation.\<close>

definition oneTableStore :: memStorage where
  "oneTableStore = snd (createTable emptyStorage availableTable)"

text \<open>The stores after one more reservation has been created.\<close>

definition oneTableReserved :: memStorage where
  "oneTableReserved = snd (createReservation 0 oneTableStore pastReservation)"

definition exampleReserved :: memStorage where
  "exampleReserved = snd (createReservation 0 exampleStore pastReservation)"

definition soloStore :: memStorage where
  "soloStore = snd (createReservation 0 exampleStore untimedReservation)"

definition pairStore :: memStorage where
  "pairStore = snd (createReservation 0 exampleStore todayReservation)"

definition grownStore :: memStorage where
  "grownStore = snd (createTable exampleStore bareTable)"

text \<open>The update \<^verbatim>\<open>{ comment: "x" }\<close>.\<close>

definition commentUpdate :: partialInsertReservation where
  "commentUpdate = no_reservation_updates\<lparr>pr_comment := Some (Some ''x'')\<rparr>"


section \<open>Properties\<close>

subsection \<open>The map operations\<close>

lemma Map_get_set: "Map_get (Map_set m k v) k' = (if k' = k then Some v else Map_get m k')"
  by (induction m k v rule: Map_set.induct) auto

lemma Map_get_delete: "Map_get (Map_delete m k) k' = (if k' = k then None else Map_get m k')"
  by (induction m k rule: Map_delete.induct) auto

lemma Map_get_None_iff: "Map_get m k = None \<longleftrightarrow> k \<notin> fst ` set m"
  by (induction m k rule: Map_get.induct) auto

lemma Map_get_Some_mem: "Map_get m k = Some v \<Longrightarrow> (k, v) \<in> set m"
  by (induction m k rule: Map_get.induct) (auto split: if_splits)

lemma Map_get_distinct: "distinct (map fst m) \<Longrightarrow> (k, v) \<in> set m \<Longrightarrow> Map_get m k = Some v"
  by (induction m k rule: Map_get.induct) (auto simp: rev_image_eqI)

lemma Map_set_keys:
  "map fst (Map_set m k v) = (if k \<in> fst ` set m then map fst m else map fst m @ [k])"
  by (induction m k v rule: Map_set.induct) auto

lemma Map_set_absent: "k \<notin> fst ` set m \<Longrightarrow> Map_set m k v = m @ [(k, v)]"
  by (induction m k v rule: Map_set.induct) auto

lemma Map_delete_filter: "Map_delete m k = filter (\<lambda>p. fst p \<noteq> k) m"
  by (induction m k rule: Map_delete.induct) auto

lemma set_Map_set: "set (Map_set m k v) \<subseteq> insert (k, v) (set m)"
  by (induction m k v rule: Map_set.induct) auto

subsection \<open>Setting the status of a table\<close>

lemma spread_status:
  "spread_table t (no_table_updates\<lparr>pt_status := Some st\<rparr>) = t\<lparr>t_status := st\<rparr>"
  by (simp add: spread_table_def no_table_updates_def spread_field_def)

lemma updateTableStatus_unfold:
  "updateTableStatus s i st =
     (case Map_get (tables s) i of
        None \<Rightarrow> (None, s)
      | Some t \<Rightarrow> (Some (t\<lparr>t_status := st\<rparr>),
                   s\<lparr>tables := Map_set (tables s) i (t\<lparr>t_status := st\<rparr>)\<rparr>))"
  by (simp add: updateTableStatus_def updateTable_def spread_status Let_def split: option.splits)

lemma updateTableStatus_absent:
  "Map_get (tables s) i = None \<Longrightarrow> updateTableStatus s i st = (None, s)"
  by (simp add: updateTableStatus_unfold)

lemma updateTableStatus_get:
  "Map_get (tables (snd (updateTableStatus s i st))) k =
     (if k = i then map_option (\<lambda>t. t\<lparr>t_status := st\<rparr>) (Map_get (tables s) i)
      else Map_get (tables s) k)"
  by (simp add: updateTableStatus_unfold Map_get_set split: option.splits)

lemma updateTableStatus_others:
  "reservations (snd (updateTableStatus s i st)) = reservations s"
  "currentTableId (snd (updateTableStatus s i st)) = currentTableId s"
  "currentReservationId (snd (updateTableStatus s i st)) = currentReservationId s"
  by (simp_all add: updateTableStatus_unfold split: option.splits)

subsection \<open>Creating a reservation\<close>

text \<open>
  C1. For a table \<open>T\<close> of the store (looking up \<open>T\<close>'s id gives \<open>T\<close>) and a
  reservation input \<open>R\<close> for that table, right after \<open>createReservation\<close> the
  lookup of \<open>T\<close>'s id gives \<open>T\<close> with status \<open>reserved\<close>, whatever the date of
  \<open>R\<close> and the clock are.
\<close>

theorem createReservation_reserves_table:
  assumes "fst (getTable s (t_id T)) = Some T" and "ir_tableId R = t_id T"
  shows "fst (getTable (snd (createReservation now s R)) (t_id T))
           = Some (T\<lparr>t_status := ''reserved''\<rparr>)"
  using assms
  by (simp add: createReservation_def getTable_def Let_def updateTableStatus_get)

theorem createReservation_reserves_table_witness:
  "fst (getTable exampleStore (t_id table1)) = Some table1 \<and>
   ir_tableId pastReservation = t_id table1 \<and>
   ir_date pastReservation \<noteq> exampleToday \<and>
   fst (getTable (snd (createReservation 0 exampleStore pastReservation)) (t_id table1))
     = Some (table1\<lparr>t_status := ''reserved''\<rparr>)"
proof -
  have h1: "fst (getTable exampleStore (t_id table1)) = Some table1"
    by code_simp
  have h2: "ir_tableId pastReservation = t_id table1"
    by code_simp
  have h3: "ir_date pastReservation \<noteq> exampleToday"
    by code_simp
  from createReservation_reserves_table [OF h1 h2, of 0] h1 h2 h3 show ?thesis
    by simp
qed

subsection \<open>Deleting a reservation\<close>

text \<open>
  C5. When the id names no reservation, \<open>deleteReservation\<close> returns false and
  the store it leaves is the store it found: no table, no reservation and no
  counter has changed.
\<close>

theorem deleteReservation_missing:
  assumes "fst (getReservation s i) = None"
  shows "deleteReservation today s i = (False, s)"
  using assms by (simp add: deleteReservation_def getReservation_def)

theorem deleteReservation_missing_witness:
  "fst (getReservation exampleStore 99) = None \<and>
   deleteReservation exampleToday exampleStore 99 = (False, exampleStore)"
proof -
  have h: "fst (getReservation exampleStore 99) = None"
    by code_simp
  from deleteReservation_missing [OF h, of exampleToday] h show ?thesis
    by simp
qed


subsection \<open>Every reachable store is well formed\<close>

lemma store_inv_updateTable:
  assumes "store_inv s"
  shows "store_inv (snd (updateTable s i u))"
proof (cases "Map_get (tables s) i")
  case None
  then show ?thesis using assms by (simp add: updateTable_def)
next
  case (Some t)
  then have mem: "(i, t) \<in> set (tables s)"
    by (rule Map_get_Some_mem)
  then have key: "i \<in> fst ` set (tables s)"
    by force
  have idt: "t_id (spread_table t u) = i"
    using assms mem by (auto simp: store_inv_def spread_table_def)
  have bounds: "1 \<le> i \<and> i < currentTableId s"
    using assms mem by (auto simp: store_inv_def)
  have sub: "set (Map_set (tables s) i (spread_table t u))
               \<subseteq> insert (i, spread_table t u) (set (tables s))"
    by (rule set_Map_set)
  have "\<forall>p \<in> set (Map_set (tables s) i (spread_table t u)).
          t_id (snd p) = fst p \<and> 1 \<le> fst p \<and> fst p < currentTableId s"
    using sub idt bounds assms by (auto simp: store_inv_def)
  then show ?thesis
    using assms Some key by (simp add: updateTable_def Let_def store_inv_def Map_set_keys)
qed

lemma store_inv_updateTableStatus:
  "store_inv s \<Longrightarrow> store_inv (snd (updateTableStatus s i st))"
  by (simp add: updateTableStatus_def store_inv_updateTable)

lemma store_inv_createTable:
  assumes "store_inv s"
  shows "store_inv (snd (createTable s tbl))"
proof -
  have fresh: "currentTableId s \<notin> fst ` set (tables s)"
    using assms by (force simp: store_inv_def)
  show ?thesis
    using assms fresh
    by (auto simp: store_inv_def createTable_def Let_def Map_set_absent)
qed

lemma store_inv_add_reservation:
  assumes "store_inv s" and "r_id r = currentReservationId s"
  shows "store_inv (s\<lparr>currentReservationId := currentReservationId s + 1,
                      reservations := Map_set (reservations s) (currentReservationId s) r\<rparr>)"
proof -
  have fresh: "currentReservationId s \<notin> fst ` set (reservations s)"
    using assms(1) by (force simp: store_inv_def)
  show ?thesis
    using assms fresh by (auto simp: store_inv_def Map_set_absent)
qed

lemma store_inv_createReservation:
  assumes "store_inv s"
  shows "store_inv (snd (createReservation now s res))"
  using assms
  by (simp add: createReservation_def Let_def store_inv_updateTableStatus
      store_inv_add_reservation)

lemma store_inv_updateReservation:
  assumes "store_inv s"
  shows "store_inv (snd (updateReservation s i u))"
proof (cases "Map_get (reservations s) i")
  case None
  then show ?thesis using assms by (simp add: updateReservation_def)
next
  case (Some r)
  then have mem: "(i, r) \<in> set (reservations s)"
    by (rule Map_get_Some_mem)
  then have key: "i \<in> fst ` set (reservations s)"
    by force
  have idr: "r_id (spread_reservation r u) = i"
    using assms mem by (auto simp: store_inv_def spread_reservation_def)
  have bounds: "1 \<le> i \<and> i < currentReservationId s"
    using assms mem by (auto simp: store_inv_def)
  have sub: "set (Map_set (reservations s) i (spread_reservation r u))
               \<subseteq> insert (i, spread_reservation r u) (set (reservations s))"
    by (rule set_Map_set)
  have "\<forall>p \<in> set (Map_set (reservations s) i (spread_reservation r u)).
          r_id (snd p) = fst p \<and> 1 \<le> fst p \<and> fst p < currentReservationId s"
    using sub idr bounds assms by (auto simp: store_inv_def)
  then show ?thesis
    using assms Some key by (simp add: updateReservation_def Let_def store_inv_def Map_set_keys)
qed

lemma store_inv_drop_reservation:
  assumes "store_inv s"
  shows "store_inv (s\<lparr>reservations := Map_delete (reservations s) i\<rparr>)"
  using assms by (auto simp: store_inv_def Map_delete_filter distinct_map_filter)

lemma store_inv_deleteReservation:
  assumes "store_inv s"
  shows "store_inv (snd (deleteReservation today s i))"
  using assms
  by (simp add: deleteReservation_def getReservationsByTable_def Let_def
      store_inv_updateTableStatus store_inv_drop_reservation split: option.splits)

lemma seedTable_createTable: "seedTable tbl s = snd (createTable s tbl)"
  by (simp add: seedTable_def createTable_def Let_def)

lemma store_inv_seedReservation:
  assumes "store_inv s"
  shows "store_inv (seedReservation now res s)"
  using store_inv_add_reservation [OF assms]
  by (simp add: seedReservation_def Let_def)

lemma store_inv_fold:
  assumes "\<And>x s. P s \<Longrightarrow> P (f x s)" and "P s"
  shows "P (fold f xs s)"
  using assms(2) by (induction xs arbitrary: s) (simp_all add: assms(1))

lemma store_inv_MemStorage: "store_inv (MemStorage today now)"
proof -
  have e: "store_inv emptyStorage"
    by (simp add: store_inv_def emptyStorage_def)
  have t: "store_inv (fold seedTable defaultTables emptyStorage)"
    by (rule store_inv_fold [where P = store_inv, OF _ e])
       (simp add: seedTable_createTable store_inv_createTable)
  show ?thesis
    unfolding MemStorage_def initializeDefaultTables_def
    by (rule store_inv_fold [where P = store_inv, OF _ t])
       (simp add: store_inv_seedReservation)
qed

lemma reachable_store_inv: "reachable s \<Longrightarrow> store_inv s"
  by (induction rule: reachable.induct)
     (simp_all add: store_inv_MemStorage store_inv_createTable store_inv_updateTable
        store_inv_createReservation store_inv_updateReservation store_inv_deleteReservation)

text \<open>In a well-formed store the tables listed are the tables found under their ids.\<close>

lemma store_inv_getTable:
  assumes "store_inv s" and "T \<in> set (fst (getTables s))"
  shows "fst (getTable s (t_id T)) = Some T"
proof -
  from assms(2) obtain k where mem: "(k, T) \<in> set (tables s)"
    by (auto simp: getTables_def Map_values_def)
  with assms(1) have "t_id T = k"
    by (auto simp: store_inv_def)
  with assms(1) mem show ?thesis
    by (simp add: getTable_def store_inv_def Map_get_distinct)
qed

lemma store_inv_getReservation:
  assumes "store_inv s" and "R \<in> set (fst (getReservations s))"
  shows "fst (getReservation s (r_id R)) = Some R"
proof -
  from assms(2) obtain k where mem: "(k, R) \<in> set (reservations s)"
    by (auto simp: getReservations_def Map_values_def)
  with assms(1) have "r_id R = k"
    by (auto simp: store_inv_def)
  with assms(1) mem show ?thesis
    by (simp add: getReservation_def store_inv_def Map_get_distinct)
qed


subsection \<open>Re-evaluating the table when a reservation is deleted\<close>

lemma deleteReservation_found:
  assumes "Map_get (reservations s) i = Some R"
  shows "deleteReservation today s i =
     (True,
      if \<forall>r \<in> set (Map_values (Map_delete (reservations s) i)).
           r_tableId r = r_tableId R \<longrightarrow> \<not> (r_date r = today \<and> r_status r = ''active'')
      then snd (updateTableStatus (s\<lparr>reservations := Map_delete (reservations s) i\<rparr>)
                  (r_tableId R) ''available'')
      else s\<lparr>reservations := Map_delete (reservations s) i\<rparr>)"
  using assms
  by (auto simp: deleteReservation_def getReservationsByTable_def Let_def filter_empty_conv)

lemma deleteReservation_frees:
  assumes "Map_get (reservations s) i = Some R"
    and "\<forall>r \<in> set (Map_values (Map_delete (reservations s) i)).
           r_tableId r = r_tableId R \<longrightarrow> \<not> (r_date r = today \<and> r_status r = ''active'')"
  shows "snd (deleteReservation today s i)
           = snd (updateTableStatus (s\<lparr>reservations := Map_delete (reservations s) i\<rparr>)
                    (r_tableId R) ''available'')"
  by (simp only: deleteReservation_found [OF assms(1)] if_P [OF assms(2)] snd_conv)

lemma deleteReservation_keeps:
  assumes "Map_get (reservations s) i = Some R"
    and "\<not> (\<forall>r \<in> set (Map_values (Map_delete (reservations s) i)).
           r_tableId r = r_tableId R \<longrightarrow> \<not> (r_date r = today \<and> r_status r = ''active''))"
  shows "snd (deleteReservation today s i) = s\<lparr>reservations := Map_delete (reservations s) i\<rparr>"
  by (simp only: deleteReservation_found [OF assms(1)] if_not_P [OF assms(2)] snd_conv)

lemma deleteReservation_remaining:
  assumes "Map_get (reservations s) i = Some R"
  shows "reservations (snd (deleteReservation today s i)) = Map_delete (reservations s) i"
  using assms by (simp add: deleteReservation_found updateTableStatus_others)

lemma updateTableStatus_keys:
  "map fst (tables (snd (updateTableStatus s i st))) = map fst (tables s)"
proof (cases "Map_get (tables s) i")
  case None
  then show ?thesis by (simp add: updateTableStatus_absent)
next
  case (Some t)
  then have "(i, t) \<in> set (tables s)"
    by (rule Map_get_Some_mem)
  then have "i \<in> fst ` set (tables s)"
    by force
  with Some show ?thesis
    by (simp add: updateTableStatus_unfold Map_set_keys)
qed

text \<open>
  C2. Deleting a reservation \<open>R\<close> that is in the store succeeds and removes
  it. If none of the remaining reservations of \<open>R\<close>'s table is dated today
  and active, the table under \<open>R\<close>'s table id gets status \<open>available\<close> and
  nothing else about the tables changes (every other lookup and the order of
  the listing stay); otherwise the tables are left as they were.
\<close>

theorem deleteReservation_reevaluates_table:
  assumes "fst (getReservation s i) = Some R"
  shows "fst (deleteReservation today s i) \<and>
     fst (getReservation (snd (deleteReservation today s i)) i) = None \<and>
     fst (getReservations (snd (deleteReservation today s i)))
       = map snd (filter (\<lambda>p. fst p \<noteq> i) (reservations s)) \<and>
     (if \<forall>r \<in> set (fst (getReservations (snd (deleteReservation today s i)))).
           r_tableId r = r_tableId R \<longrightarrow> \<not> (r_date r = today \<and> r_status r = ''active'')
      then (\<forall>k. fst (getTable (snd (deleteReservation today s i)) k) =
                  (if k = r_tableId R
                   then map_option (\<lambda>t. t\<lparr>t_status := ''available''\<rparr>) (fst (getTable s k))
                   else fst (getTable s k))) \<and>
           map fst (tables (snd (deleteReservation today s i))) = map fst (tables s)
      else tables (snd (deleteReservation today s i)) = tables s)"
proof -
  from assms have found: "Map_get (reservations s) i = Some R"
    by (simp add: getReservation_def)
  let ?s' = "snd (deleteReservation today s i)"
  let ?s1 = "s\<lparr>reservations := Map_delete (reservations s) i\<rparr>"
  have rem: "reservations ?s' = Map_delete (reservations s) i"
    using found by (rule deleteReservation_remaining)
  have ok: "fst (deleteReservation today s i)"
    using found by (simp add: deleteReservation_found)
  have gone: "fst (getReservation ?s' i) = None"
    by (simp add: getReservation_def rem Map_get_delete)
  have listed: "fst (getReservations ?s') = map snd (filter (\<lambda>p. fst p \<noteq> i) (reservations s))"
    by (simp add: getReservations_def rem Map_values_def Map_delete_filter)
  let ?none = "\<forall>r \<in> set (fst (getReservations ?s')).
                 r_tableId r = r_tableId R \<longrightarrow> \<not> (r_date r = today \<and> r_status r = ''active'')"
  let ?freed = "(\<forall>k. fst (getTable ?s' k) =
                  (if k = r_tableId R
                   then map_option (\<lambda>t. t\<lparr>t_status := ''available''\<rparr>) (fst (getTable s k))
                   else fst (getTable s k))) \<and>
                map fst (tables ?s') = map fst (tables s)"
  have branch: "if ?none then ?freed else tables ?s' = tables s"
  proof (cases ?none)
    case True
    then have "\<forall>r \<in> set (Map_values (Map_delete (reservations s) i)).
                 r_tableId r = r_tableId R \<longrightarrow> \<not> (r_date r = today \<and> r_status r = ''active'')"
      by (simp add: getReservations_def rem)
    with found have eq: "?s' = snd (updateTableStatus ?s1 (r_tableId R) ''available'')"
      by (rule deleteReservation_frees)
    have look: "\<forall>k. fst (getTable ?s' k) =
                  (if k = r_tableId R
                   then map_option (\<lambda>t. t\<lparr>t_status := ''available''\<rparr>) (fst (getTable s k))
                   else fst (getTable s k))"
      by (simp add: eq getTable_def updateTableStatus_get)
    have keys: "map fst (tables ?s') = map fst (tables s)"
      by (simp add: eq updateTableStatus_keys)
    from look keys have ?freed ..
    then show ?thesis
      by (subst if_P [OF True])
  next
    case False
    then have "\<not> (\<forall>r \<in> set (Map_values (Map_delete (reservations s) i)).
                 r_tableId r = r_tableId R \<longrightarrow> \<not> (r_date r = today \<and> r_status r = ''active''))"
      by (simp add: getReservations_def rem)
    with found have "?s' = ?s1"
      by (rule deleteReservation_keeps)
    then have "tables ?s' = tables s"
      by simp
    then show ?thesis
      by (subst if_not_P [OF False])
  qed
  show ?thesis
    by (rule conjI [OF ok conjI [OF gone conjI [OF listed branch]]])
qed

text \<open>
  The two situations the claim names: the only reservation of table 1, dated
  today and active, is deleted and the table, \<open>reserved\<close> before, is
  \<open>available\<close> after; one of the two such reservations of table 2 is deleted
  and the table stays \<open>reserved\<close>.
\<close>

theorem deleteReservation_reevaluates_table_witness:
  "(fst (getReservation soloStore 4)
      = Some (fst (createReservation 0 exampleStore untimedReservation)) \<and>
    map_option t_status (fst (getTable soloStore 1)) = Some ''reserved'' \<and>
    map_option t_status (fst (getTable (snd (deleteReservation exampleToday soloStore 4)) 1))
      = Some ''available'') \<and>
   (fst (getReservation pairStore 4)
      = Some (fst (createReservation 0 exampleStore todayReservation)) \<and>
    map_option t_status (fst (getTable pairStore 2)) = Some ''reserved'' \<and>
    tables (snd (deleteReservation exampleToday pairStore 4)) = tables pairStore)"
proof -
  let ?R1 = "fst (createReservation 0 exampleStore untimedReservation)"
  let ?R2 = "fst (createReservation 0 exampleStore todayReservation)"
  have h1: "fst (getReservation soloStore 4) = Some ?R1"
    by code_simp
  have h2: "fst (getReservation pairStore 4) = Some ?R2"
    by code_simp
  have b1: "map_option t_status (fst (getTable soloStore 1)) = Some ''reserved''"
    by code_simp
  have b2: "map_option t_status (fst (getTable pairStore 2)) = Some ''reserved''"
    by code_simp
  have c1: "\<forall>r \<in> set (fst (getReservations (snd (deleteReservation exampleToday soloStore 4)))).
              r_tableId r = r_tableId ?R1 \<longrightarrow>
              \<not> (r_date r = exampleToday \<and> r_status r = ''active'')"
    by code_simp
  have c2: "\<not> (\<forall>r \<in> set (fst (getReservations (snd (deleteReservation exampleToday pairStore 4)))).
              r_tableId r = r_tableId ?R2 \<longrightarrow>
              \<not> (r_date r = exampleToday \<and> r_status r = ''active''))"
    by code_simp
  have t1: "r_tableId ?R1 = 1"
    by code_simp
  from deleteReservation_reevaluates_table [OF h1, of exampleToday] c1 t1
  have "fst (getTable (snd (deleteReservation exampleToday soloStore 4)) 1)
          = map_option (\<lambda>t. t\<lparr>t_status := ''available''\<rparr>) (fst (getTable soloStore 1))"
    by simp
  with b1 have a1: "map_option t_status
                      (fst (getTable (snd (deleteReservation exampleToday soloStore 4)) 1))
                    = Some ''available''"
    by (cases "fst (getTable soloStore 1)") simp_all
  from deleteReservation_reevaluates_table [OF h2, of exampleToday] c2
  have a2: "tables (snd (deleteReservation exampleToday pairStore 4)) = tables pairStore"
    by simp
  from h1 h2 b1 b2 a1 a2 show ?thesis
    by simp
qed

text \<open>
  C3 as stated fails. The reservation deleted here is dated \<open>2024-01-01\<close>,
  today is \<open>2024-06-01\<close>, and the table goes from \<open>reserved\<close> to
  \<open>available\<close>: in the one-table store of the scenario and in the store the
  constructor seeds.
\<close>

theorem deleteReservation_other_day_counterexample:
  "ir_date pastReservation = ''2024-01-01'' \<and> exampleToday \<noteq> ''2024-01-01'' \<and>
   map_option t_status (fst (getTable oneTableStore 1)) = Some ''available'' \<and>
   map_option r_date (fst (getReservation oneTableReserved 1)) = Some ''2024-01-01'' \<and>
   map_option t_status (fst (getTable oneTableReserved 1)) = Some ''reserved'' \<and>
   fst (deleteReservation exampleToday oneTableReserved 1) \<and>
   map_option t_status (fst (getTable (snd (deleteReservation exampleToday oneTableReserved 1)) 1))
     = Some ''available'' \<and>
   map_option r_date (fst (getReservation exampleReserved 4)) = Some ''2024-01-01'' \<and>
   map_option t_status (fst (getTable exampleReserved 1)) = Some ''reserved'' \<and>
   map_option t_status (fst (getTable (snd (deleteReservation exampleToday exampleReserved 4)) 1))
     = Some ''available''"
  by code_simp

text \<open>
  C3, amended. Deleting a reservation \<open>R\<close> dated on another day than today
  leaves the status of \<open>R\<close>'s table as it was when one of the remaining
  reservations of that table is dated today and active, and sets it to
  \<open>available\<close> otherwise.
\<close>

theorem deleteReservation_other_day:
  assumes "fst (getReservation s i) = Some R" and "r_date R \<noteq> today"
  shows "map_option t_status (fst (getTable (snd (deleteReservation today s i)) (r_tableId R))) =
     (if \<exists>r \<in> set (fst (getReservations (snd (deleteReservation today s i)))).
           r_tableId r = r_tableId R \<and> r_date r = today \<and> r_status r = ''active''
      then map_option t_status (fst (getTable s (r_tableId R)))
      else map_option (\<lambda>t. ''available'') (fst (getTable s (r_tableId R))))"
proof -
  from assms(1) have found: "Map_get (reservations s) i = Some R"
    by (simp add: getReservation_def)
  let ?s1 = "s\<lparr>reservations := Map_delete (reservations s) i\<rparr>"
  have rem: "reservations (snd (deleteReservation today s i)) = Map_delete (reservations s) i"
    using found by (rule deleteReservation_remaining)
  show ?thesis
  proof (cases "\<exists>r \<in> set (fst (getReservations (snd (deleteReservation today s i)))).
                  r_tableId r = r_tableId R \<and> r_date r = today \<and> r_status r = ''active''")
    case True
    then have "\<not> (\<forall>r \<in> set (Map_values (Map_delete (reservations s) i)).
                 r_tableId r = r_tableId R \<longrightarrow> \<not> (r_date r = today \<and> r_status r = ''active''))"
      by (simp add: getReservations_def rem)
    with found have "snd (deleteReservation today s i) = ?s1"
      by (rule deleteReservation_keeps)
    then have "fst (getTable (snd (deleteReservation today s i)) (r_tableId R))
                 = fst (getTable s (r_tableId R))"
      by (simp add: getTable_def)
    then have "map_option t_status (fst (getTable (snd (deleteReservation today s i)) (r_tableId R)))
                 = map_option t_status (fst (getTable s (r_tableId R)))"
      by simp
    then show ?thesis
      by (subst if_P [OF True])
  next
    case False
    then have "\<forall>r \<in> set (Map_values (Map_delete (reservations s) i)).
                 r_tableId r = r_tableId R \<longrightarrow> \<not> (r_date r = today \<and> r_status r = ''active'')"
      by (simp add: getReservations_def rem)
    with found have "snd (deleteReservation today s i)
                       = snd (updateTableStatus ?s1 (r_tableId R) ''available'')"
      by (rule deleteReservation_frees)
    then have "map_option t_status (fst (getTable (snd (deleteReservation today s i)) (r_tableId R)))
                 = map_option (\<lambda>t. ''available'') (fst (getTable s (r_tableId R)))"
      by (simp add: getTable_def updateTableStatus_get option.map_comp comp_def)
    then show ?thesis
      by (subst if_not_P [OF False])
  qed
qed

theorem deleteReservation_other_day_witness:
  "fst (getReservation oneTableReserved 1)
     = Some (fst (createReservation 0 oneTableStore pastReservation)) \<and>
   r_date (fst (createReservation 0 oneTableStore pastReservation)) \<noteq> exampleToday \<and>
   map_option t_status (fst (getTable oneTableReserved 1)) = Some ''reserved'' \<and>
   map_option t_status (fst (getTable (snd (deleteReservation exampleToday oneTableReserved 1)) 1))
     = Some ''available''"
proof -
  let ?R = "fst (createReservation 0 oneTableStore pastReservation)"
  have h1: "fst (getReservation oneTableReserved 1) = Some ?R"
    by code_simp
  have h2: "r_date ?R \<noteq> exampleToday"
    by code_simp
  have t: "r_tableId ?R = 1"
    by code_simp
  have b: "map_option t_status (fst (getTable oneTableReserved 1)) = Some ''reserved''"
    by code_simp
  have c: "\<not> (\<exists>r \<in> set (fst (getReservations (snd (deleteReservation exampleToday oneTableReserved 1)))).
              r_tableId r = r_tableId ?R \<and> r_date r = exampleToday \<and> r_status r = ''active'')"
    by code_simp
  from deleteReservation_other_day [OF h1 h2] c t b
  have "map_option t_status (fst (getTable (snd (deleteReservation exampleToday oneTableReserved 1)) 1))
          = Some ''available''"
    by (cases "fst (getTable oneTableReserved 1)") simp_all
  with h1 h2 b show ?thesis
    by simp
qed


subsection \<open>The record a new reservation gets\<close>

text \<open>
  C4 as stated fails. A reservation created with \<open>hasTimeLimit\<close> false and
  a start and an end time is stored, and returned by \<open>getReservation\<close>, with
  \<open>hasTimeLimit\<close> false and both times as supplied.
\<close>

theorem createReservation_times_counterexample:
  "ir_hasTimeLimit untimedReservation = Some False \<and>
   \<not> r_hasTimeLimit (fst (createReservation 0 exampleStore untimedReservation)) \<and>
   r_startTime (fst (createReservation 0 exampleStore untimedReservation)) = Some ''18:00'' \<and>
   r_endTime (fst (createReservation 0 exampleStore untimedReservation)) = Some ''20:00'' \<and>
   fst (getReservation (snd (createReservation 0 exampleStore untimedReservation)) 4)
     = Some (fst (createReservation 0 exampleStore untimedReservation))"
  by code_simp

lemma createReservation_stored:
  "fst (getReservation (snd (createReservation now s R)) (currentReservationId s))
     = Some (fst (createReservation now s R))"
  by (simp add: createReservation_def Let_def getReservation_def updateTableStatus_others
      Map_get_set)

text \<open>
  C4, amended. The record \<open>createReservation\<close> returns is the record it
  stores under the new id, and neither ever has an empty string as start or
  end time: each of the two is null when the input leaves it unset, null or
  empty, and is the input's value otherwise, whatever \<open>hasTimeLimit\<close> is;
  and \<open>hasTimeLimit\<close> is true only when the input says true.
\<close>

theorem createReservation_times:
  "r_id (fst (createReservation now s R)) = currentReservationId s \<and>
   fst (getReservation (snd (createReservation now s R)) (currentReservationId s))
     = Some (fst (createReservation now s R)) \<and>
   map_option r_startTime
       (fst (getReservation (snd (createReservation now s R)) (currentReservationId s)))
     = Some (if ir_startTime R = Some [] then None else ir_startTime R) \<and>
   map_option r_endTime
       (fst (getReservation (snd (createReservation now s R)) (currentReservationId s)))
     = Some (if ir_endTime R = Some [] then None else ir_endTime R) \<and>
   map_option r_hasTimeLimit
       (fst (getReservation (snd (createReservation now s R)) (currentReservationId s)))
     = Some (ir_hasTimeLimit R = Some True) \<and>
   r_startTime (fst (createReservation now s R))
     = (if ir_startTime R = Some [] then None else ir_startTime R) \<and>
   r_endTime (fst (createReservation now s R))
     = (if ir_endTime R = Some [] then None else ir_endTime R) \<and>
   r_startTime (fst (createReservation now s R)) \<noteq> Some [] \<and>
   r_endTime (fst (createReservation now s R)) \<noteq> Some [] \<and>
   (ir_startTime R \<in> {None, Some []} \<and> ir_endTime R \<in> {None, Some []} \<longrightarrow>
      r_startTime (fst (createReservation now s R)) = None \<and>
      r_endTime (fst (createReservation now s R)) = None) \<and>
   r_hasTimeLimit (fst (createReservation now s R)) = (ir_hasTimeLimit R = Some True)"
proof -
  have returned:
    "r_id (fst (createReservation now s R)) = currentReservationId s \<and>
     r_startTime (fst (createReservation now s R))
       = (if ir_startTime R = Some [] then None else ir_startTime R) \<and>
     r_endTime (fst (createReservation now s R))
       = (if ir_endTime R = Some [] then None else ir_endTime R) \<and>
     r_hasTimeLimit (fst (createReservation now s R)) = (ir_hasTimeLimit R = Some True)"
    by (auto simp: createReservation_def Let_def or_null_def or_boolean_def
        split: option.splits)
  have stored:
    "fst (getReservation (snd (createReservation now s R)) (currentReservationId s))
       = Some (fst (createReservation now s R))"
    by (rule createReservation_stored)
  from returned show ?thesis
    unfolding stored by (auto split: if_splits)
qed

theorem createReservation_times_witness:
  "ir_hasTimeLimit blankTimesReservation = None \<and>
   ir_startTime blankTimesReservation \<in> {None, Some []} \<and>
   ir_endTime blankTimesReservation \<in> {None, Some []} \<and>
   currentReservationId exampleStore = 4 \<and>
   fst (getReservation (snd (createReservation 0 exampleStore blankTimesReservation)) 4)
     = Some (fst (createReservation 0 exampleStore blankTimesReservation)) \<and>
   r_startTime (fst (createReservation 0 exampleStore blankTimesReservation)) = None \<and>
   r_endTime (fst (createReservation 0 exampleStore blankTimesReservation)) = None \<and>
   \<not> r_hasTimeLimit (fst (createReservation 0 exampleStore blankTimesReservation))"
proof -
  have h: "ir_startTime blankTimesReservation \<in> {None, Some []} \<and>
           ir_endTime blankTimesReservation \<in> {None, Some []}"
    by (simp add: blankTimesReservation_def)
  have u: "ir_hasTimeLimit blankTimesReservation = None"
    by (simp add: blankTimesReservation_def)
  have c: "currentReservationId exampleStore = 4"
    by code_simp
  note inst = createReservation_times [of 0 exampleStore blankTimesReservation]
  from inst c
  have st: "fst (getReservation (snd (createReservation 0 exampleStore blankTimesReservation)) 4)
              = Some (fst (createReservation 0 exampleStore blankTimesReservation))"
    by simp
  from inst h
  have n: "r_startTime (fst (createReservation 0 exampleStore blankTimesReservation)) = None \<and>
           r_endTime (fst (createReservation 0 exampleStore blankTimesReservation)) = None"
    by blast
  from inst u
  have l: "\<not> r_hasTimeLimit (fst (createReservation 0 exampleStore blankTimesReservation))"
    by simp
  from h u c st n l show ?thesis
    by blast
qed

text \<open>
  C10. When the input names a table that does not exist, \<open>createReservation\<close>
  still stores and returns the reservation: its id is the counter's value, the
  counter moves on by one, the unset optional fields get their defaults, the
  record is found under its id and every other reservation is as before; the
  tables and the table counter are untouched.
\<close>

theorem createReservation_missing_table:
  assumes "fst (getTable s (ir_tableId R)) = None"
  shows "tables (snd (createReservation now s R)) = tables s \<and>
     currentTableId (snd (createReservation now s R)) = currentTableId s \<and>
     r_id (fst (createReservation now s R)) = currentReservationId s \<and>
     currentReservationId (snd (createReservation now s R)) = currentReservationId s + 1 \<and>
     fst (getReservation (snd (createReservation now s R)) (currentReservationId s))
       = Some (fst (createReservation now s R)) \<and>
     (\<forall>k. k \<noteq> currentReservationId s \<longrightarrow>
        fst (getReservation (snd (createReservation now s R)) k) = fst (getReservation s k)) \<and>
     r_tableId (fst (createReservation now s R)) = ir_tableId R \<and>
     r_customerName (fst (createReservation now s R)) = ir_customerName R \<and>
     r_customerPhone (fst (createReservation now s R)) = ir_customerPhone R \<and>
     r_guests (fst (createReservation now s R)) = ir_guests R \<and>
     r_date (fst (createReservation now s R)) = ir_date R \<and>
     r_time (fst (createReservation now s R)) = ir_time R \<and>
     r_createdAt (fst (createReservation now s R)) = now \<and>
     (ir_duration R = None \<longrightarrow> r_duration (fst (createReservation now s R)) = 120) \<and>
     (ir_comment R = None \<longrightarrow> r_comment (fst (createReservation now s R)) = None) \<and>
     (ir_status R = None \<longrightarrow> r_status (fst (createReservation now s R)) = ''active'') \<and>
     (ir_hasTimeLimit R = None \<longrightarrow> \<not> r_hasTimeLimit (fst (createReservation now s R))) \<and>
     (ir_startTime R = None \<longrightarrow> r_startTime (fst (createReservation now s R)) = None) \<and>
     (ir_endTime R = None \<longrightarrow> r_endTime (fst (createReservation now s R)) = None)"
proof -
  let ?s2 = "s\<lparr>currentReservationId := currentReservationId s + 1,
               reservations := Map_set (reservations s) (currentReservationId s)
                 (fst (createReservation now s R))\<rparr>"
  from assms have absent: "Map_get (tables ?s2) (ir_tableId R) = None"
    by (simp add: getTable_def)
  have "snd (createReservation now s R) = snd (updateTableStatus ?s2 (ir_tableId R) ''reserved'')"
    by (simp add: createReservation_def Let_def)
  with absent have eq: "snd (createReservation now s R) = ?s2"
    by (simp add: updateTableStatus_absent)
  have fields: "fst (createReservation now s R) =
      \<lparr> r_id = currentReservationId s, r_tableId = ir_tableId R,
        r_customerName = ir_customerName R, r_customerPhone = ir_customerPhone R,
        r_guests = ir_guests R, r_date = ir_date R, r_time = ir_time R,
        r_duration = or_number (ir_duration R) 120, r_comment = or_null (ir_comment R),
        r_status = or_string (ir_status R) ''active'',
        r_hasTimeLimit = or_boolean (ir_hasTimeLimit R) False,
        r_startTime = or_null (ir_startTime R), r_endTime = or_null (ir_endTime R),
        r_createdAt = now \<rparr>"
    by (simp add: createReservation_def Let_def)
  have stored: "fst (getReservation (snd (createReservation now s R)) (currentReservationId s))
                  = Some (fst (createReservation now s R))"
    unfolding eq by (simp add: getReservation_def Map_get_set)
  have others: "\<forall>k. k \<noteq> currentReservationId s \<longrightarrow>
                  fst (getReservation (snd (createReservation now s R)) k) = fst (getReservation s k)"
    unfolding eq by (simp add: getReservation_def Map_get_set)
  have frame: "tables (snd (createReservation now s R)) = tables s \<and>
               currentTableId (snd (createReservation now s R)) = currentTableId s \<and>
               currentReservationId (snd (createReservation now s R)) = currentReservationId s + 1"
    unfolding eq by simp
  from frame stored others show ?thesis
    by (simp add: fields or_number_def or_null_def or_string_def or_boolean_def)
qed

theorem createReservation_missing_table_witness:
  "fst (getTable exampleStore (ir_tableId strayReservation)) = None \<and>
   tables (snd (createReservation 0 exampleStore strayReservation)) = tables exampleStore \<and>
   r_id (fst (createReservation 0 exampleStore strayReservation)) = 4 \<and>
   fst (getReservation (snd (createReservation 0 exampleStore strayReservation)) 4)
     = Some (fst (createReservation 0 exampleStore strayReservation)) \<and>
   r_status (fst (createReservation 0 exampleStore strayReservation)) = ''active'' \<and>
   r_duration (fst (createReservation 0 exampleStore strayReservation)) = 120"
proof -
  have h: "fst (getTable exampleStore (ir_tableId strayReservation)) = None"
    by code_simp
  have c: "currentReservationId exampleStore = 4"
    by code_simp
  have u: "ir_status strayReservation = None \<and> ir_duration strayReservation = None"
    by (simp add: strayReservation_def)
  from createReservation_missing_table [OF h, of 0] h c u show ?thesis
    by simp
qed

subsection \<open>Updating a reservation\<close>

lemma spread_comment: "spread_reservation old commentUpdate = old\<lparr>r_comment := Some ''x''\<rparr>"
  by (simp add: spread_reservation_def commentUpdate_def no_reservation_updates_def
      spread_field_def)

text \<open>
  C7. Updating a reservation that exists returns a record \<open>new\<close> which is
  also what \<open>getReservation\<close> finds afterwards; \<open>new\<close> has the id and the
  creation time of the old record, and in every other field the supplied
  value when the update has that key and the old value when it has not. The
  tables, both counters and every other reservation are unchanged. For the
  update \<open>{comment: "x"}\<close> the new record is the old one with comment \<open>x\<close>.
\<close>

theorem updateReservation_merges:
  assumes "fst (getReservation s i) = Some old"
  shows "\<exists>new.
     fst (updateReservation s i u) = Some new \<and>
     fst (getReservation (snd (updateReservation s i u)) i) = Some new \<and>
     tables (snd (updateReservation s i u)) = tables s \<and>
     currentTableId (snd (updateReservation s i u)) = currentTableId s \<and>
     currentReservationId (snd (updateReservation s i u)) = currentReservationId s \<and>
     (\<forall>k. k \<noteq> i \<longrightarrow>
        fst (getReservation (snd (updateReservation s i u)) k) = fst (getReservation s k)) \<and>
     r_id new = r_id old \<and>
     r_createdAt new = r_createdAt old \<and>
     r_tableId new = (case pr_tableId u of None \<Rightarrow> r_tableId old | Some v \<Rightarrow> v) \<and>
     r_customerName new = (case pr_customerName u of None \<Rightarrow> r_customerName old | Some v \<Rightarrow> v) \<and>
     r_customerPhone new
       = (case pr_customerPhone u of None \<Rightarrow> r_customerPhone old | Some v \<Rightarrow> v) \<and>
     r_guests new = (case pr_guests u of None \<Rightarrow> r_guests old | Some v \<Rightarrow> v) \<and>
     r_date new = (case pr_date u of None \<Rightarrow> r_date old | Some v \<Rightarrow> v) \<and>
     r_time new = (case pr_time u of None \<Rightarrow> r_time old | Some v \<Rightarrow> v) \<and>
     r_duration new = (case pr_duration u of None \<Rightarrow> r_duration old | Some v \<Rightarrow> v) \<and>
     r_comment new = (case pr_comment u of None \<Rightarrow> r_comment old | Some v \<Rightarrow> v) \<and>
     r_status new = (case pr_status u of None \<Rightarrow> r_status old | Some v \<Rightarrow> v) \<and>
     r_hasTimeLimit new
       = (case pr_hasTimeLimit u of None \<Rightarrow> r_hasTimeLimit old | Some v \<Rightarrow> v) \<and>
     r_startTime new = (case pr_startTime u of None \<Rightarrow> r_startTime old | Some v \<Rightarrow> v) \<and>
     r_endTime new = (case pr_endTime u of None \<Rightarrow> r_endTime old | Some v \<Rightarrow> v) \<and>
     (u = commentUpdate \<longrightarrow> new = old\<lparr>r_comment := Some ''x''\<rparr>)"
proof -
  from assms have found: "Map_get (reservations s) i = Some old"
    by (simp add: getReservation_def)
  let ?new = "spread_reservation old u"
  have res: "updateReservation s i u
               = (Some ?new, s\<lparr>reservations := Map_set (reservations s) i ?new\<rparr>)"
    using found by (simp add: updateReservation_def Let_def)
  have fields: "r_id ?new = r_id old \<and>
     r_createdAt ?new = r_createdAt old \<and>
     r_tableId ?new = (case pr_tableId u of None \<Rightarrow> r_tableId old | Some v \<Rightarrow> v) \<and>
     r_customerName ?new = (case pr_customerName u of None \<Rightarrow> r_customerName old | Some v \<Rightarrow> v) \<and>
     r_customerPhone ?new
       = (case pr_customerPhone u of None \<Rightarrow> r_customerPhone old | Some v \<Rightarrow> v) \<and>
     r_guests ?new = (case pr_guests u of None \<Rightarrow> r_guests old | Some v \<Rightarrow> v) \<and>
     r_date ?new = (case pr_date u of None \<Rightarrow> r_date old | Some v \<Rightarrow> v) \<and>
     r_time ?new = (case pr_time u of None \<Rightarrow> r_time old | Some v \<Rightarrow> v) \<and>
     r_duration ?new = (case pr_duration u of None \<Rightarrow> r_duration old | Some v \<Rightarrow> v) \<and>
     r_comment ?new = (case pr_comment u of None \<Rightarrow> r_comment old | Some v \<Rightarrow> v) \<and>
     r_status ?new = (case pr_status u of None \<Rightarrow> r_status old | Some v \<Rightarrow> v) \<and>
     r_hasTimeLimit ?new
       = (case pr_hasTimeLimit u of None \<Rightarrow> r_hasTimeLimit old | Some v \<Rightarrow> v) \<and>
     r_startTime ?new = (case pr_startTime u of None \<Rightarrow> r_startTime old | Some v \<Rightarrow> v) \<and>
     r_endTime ?new = (case pr_endTime u of None \<Rightarrow> r_endTime old | Some v \<Rightarrow> v)"
    by (simp add: spread_reservation_def spread_field_def)
  have example: "u = commentUpdate \<longrightarrow> ?new = old\<lparr>r_comment := Some ''x''\<rparr>"
    by (simp add: spread_comment)
  have frame: "fst (updateReservation s i u) = Some ?new \<and>
     fst (getReservation (snd (updateReservation s i u)) i) = Some ?new \<and>
     tables (snd (updateReservation s i u)) = tables s \<and>
     currentTableId (snd (updateReservation s i u)) = currentTableId s \<and>
     currentReservationId (snd (updateReservation s i u)) = currentReservationId s \<and>
     (\<forall>k. k \<noteq> i \<longrightarrow>
        fst (getReservation (snd (updateReservation s i u)) k) = fst (getReservation s k))"
    by (simp add: res getReservation_def Map_get_set)
  from frame fields example show ?thesis
    by blast
qed

theorem updateReservation_merges_witness:
  "fst (getReservation soloStore 4)
     = Some (fst (createReservation 0 exampleStore untimedReservation)) \<and>
   fst (updateReservation soloStore 4 commentUpdate)
     = Some ((fst (createReservation 0 exampleStore untimedReservation))\<lparr>r_comment := Some ''x''\<rparr>) \<and>
   fst (getReservation (snd (updateReservation soloStore 4 commentUpdate)) 4)
     = Some ((fst (createReservation 0 exampleStore untimedReservation))\<lparr>r_comment := Some ''x''\<rparr>) \<and>
   tables (snd (updateReservation soloStore 4 commentUpdate)) = tables soloStore"
proof -
  have h: "fst (getReservation soloStore 4)
             = Some (fst (createReservation 0 exampleStore untimedReservation))"
    by code_simp
  from updateReservation_merges [OF h, of commentUpdate] h show ?thesis
    by auto
qed


subsection \<open>Creating a table\<close>

lemma later_currentTableId: "later s s' \<Longrightarrow> currentTableId s \<le> currentTableId s'"
proof (induction rule: later.induct)
  case (l_refl s)
  show ?case by simp
next
  case (l_createTable s s' tbl)
  then show ?case by (simp add: createTable_def Let_def)
next
  case (l_updateTable s s' i tu)
  then show ?case by (simp add: updateTable_def Let_def split: option.splits)
next
  case (l_createReservation s s' now res)
  then show ?case by (simp add: createReservation_def Let_def updateTableStatus_others)
next
  case (l_updateReservation s s' i ru)
  then show ?case by (simp add: updateReservation_def Let_def split: option.splits)
next
  case (l_deleteReservation s s' today i)
  then show ?case
    by (simp add: deleteReservation_def getReservationsByTable_def Let_def
        updateTableStatus_others split: option.splits)
qed

text \<open>
  C8. The table \<open>createTable\<close> returns has the counter's value as id and the
  counter moves on by one. That id is greater than the id of every table in a
  well-formed store, and greater than the id any earlier \<open>createTable\<close> call
  returned, whatever calls came in between. An unset name becomes null, an
  unset status \<open>available\<close>, an unset shape \<open>round\<close>, an unset hall
  \<open>white\<close>; the table is found under its id afterwards.
\<close>

theorem createTable_fresh_id_defaults:
  assumes "store_inv s"
  shows "t_id (fst (createTable s f)) = currentTableId s \<and>
     currentTableId (snd (createTable s f)) = currentTableId s + 1 \<and>
     (\<forall>T \<in> set (fst (getTables s)). t_id T < t_id (fst (createTable s f))) \<and>
     (\<forall>s0 f0. later (snd (createTable s0 f0)) s \<longrightarrow>
        t_id (fst (createTable s0 f0)) < t_id (fst (createTable s f))) \<and>
     fst (getTable (snd (createTable s f)) (t_id (fst (createTable s f))))
       = Some (fst (createTable s f)) \<and>
     (it_name f = None \<longrightarrow> t_name (fst (createTable s f)) = None) \<and>
     (it_status f = None \<longrightarrow> t_status (fst (createTable s f)) = ''available'') \<and>
     (it_shape f = None \<longrightarrow> t_shape (fst (createTable s f)) = ''round'') \<and>
     (it_hallId f = None \<longrightarrow> t_hallId (fst (createTable s f)) = ''white'')"
proof -
  have newid: "t_id (fst (createTable s f)) = currentTableId s"
    by (simp add: createTable_def Let_def)
  have counter: "currentTableId (snd (createTable s f)) = currentTableId s + 1"
    by (simp add: createTable_def Let_def)
  have existing: "\<forall>T \<in> set (fst (getTables s)). t_id T < t_id (fst (createTable s f))"
  proof
    fix T
    assume "T \<in> set (fst (getTables s))"
    then obtain k where "(k, T) \<in> set (tables s)"
      by (auto simp: getTables_def Map_values_def)
    with assms have "t_id T < currentTableId s"
      by (auto simp: store_inv_def)
    with newid show "t_id T < t_id (fst (createTable s f))"
      by simp
  qed
  have earlier: "\<forall>s0 f0. later (snd (createTable s0 f0)) s \<longrightarrow>
                   t_id (fst (createTable s0 f0)) < t_id (fst (createTable s f))"
  proof (intro allI impI)
    fix s0 f0
    assume "later (snd (createTable s0 f0)) s"
    then have "currentTableId (snd (createTable s0 f0)) \<le> currentTableId s"
      by (rule later_currentTableId)
    then have "currentTableId s0 + 1 \<le> currentTableId s"
      by (simp add: createTable_def Let_def)
    then show "t_id (fst (createTable s0 f0)) < t_id (fst (createTable s f))"
      by (simp add: createTable_def Let_def)
  qed
  have stored: "fst (getTable (snd (createTable s f)) (t_id (fst (createTable s f))))
                  = Some (fst (createTable s f))"
    by (simp add: createTable_def Let_def getTable_def Map_get_set)
  have defaults: "(it_name f = None \<longrightarrow> t_name (fst (createTable s f)) = None) \<and>
     (it_status f = None \<longrightarrow> t_status (fst (createTable s f)) = ''available'') \<and>
     (it_shape f = None \<longrightarrow> t_shape (fst (createTable s f)) = ''round'') \<and>
     (it_hallId f = None \<longrightarrow> t_hallId (fst (createTable s f)) = ''white'')"
    by (simp add: createTable_def Let_def or_null_def or_string_def)
  from newid counter existing earlier stored defaults show ?thesis
    by blast
qed

theorem createTable_fresh_id_defaults_witness:
  "store_inv grownStore \<and>
   later (snd (createTable exampleStore bareTable)) grownStore \<and>
   map t_id (fst (getTables grownStore)) = [1, 2, 3, 4, 5, 6, 7, 8, 9, 10, 11, 12, 13, 14, 15, 16] \<and>
   t_id (fst (createTable exampleStore bareTable)) = 16 \<and>
   t_id (fst (createTable exampleStore bareTable)) < t_id (fst (createTable grownStore bareTable)) \<and>
   t_id (fst (createTable grownStore bareTable)) = 17 \<and>
   t_name (fst (createTable grownStore bareTable)) = None \<and>
   t_status (fst (createTable grownStore bareTable)) = ''available'' \<and>
   t_shape (fst (createTable grownStore bareTable)) = ''round'' \<and>
   t_hallId (fst (createTable grownStore bareTable)) = ''white''"
proof -
  have inv: "store_inv grownStore"
    unfolding grownStore_def exampleStore_def
    by (intro store_inv_createTable store_inv_MemStorage)
  have lat: "later (snd (createTable exampleStore bareTable)) grownStore"
    unfolding grownStore_def by (rule later.l_refl)
  have ids: "map t_id (fst (getTables grownStore))
               = [1, 2, 3, 4, 5, 6, 7, 8, 9, 10, 11, 12, 13, 14, 15, 16]"
    by code_simp
  have c0: "t_id (fst (createTable exampleStore bareTable)) = 16"
    by code_simp
  have c1: "currentTableId grownStore = 17"
    by code_simp
  have u: "it_name bareTable = None \<and> it_status bareTable = None \<and>
           it_shape bareTable = None \<and> it_hallId bareTable = None"
    by (simp add: bareTable_def)
  note inst = createTable_fresh_id_defaults [OF inv, of bareTable]
  from inst lat have less:
    "t_id (fst (createTable exampleStore bareTable)) < t_id (fst (createTable grownStore bareTable))"
    by blast
  from inst c1 have new: "t_id (fst (createTable grownStore bareTable)) = 17"
    by simp
  from inst u have defaults:
    "t_name (fst (createTable grownStore bareTable)) = None \<and>
     t_status (fst (createTable grownStore bareTable)) = ''available'' \<and>
     t_shape (fst (createTable grownStore bareTable)) = ''round'' \<and>
     t_hallId (fst (createTable grownStore bareTable)) = ''white''"
    by simp
  from inv lat ids c0 less new defaults show ?thesis
    by simp
qed

subsection \<open>Tables with their reservations\<close>

lemma tablesWithReservations_loop_eq:
  "tablesWithReservations_loop d ts acc s = (acc @ map (tableView s d) ts, s)"
  by (induction ts arbitrary: acc)
     (simp_all add: getReservationsByTable_def tableView_def Let_def)

lemma getTablesWithReservations_eq:
  "getTablesWithReservations today s date
     = (map (tableView s (or_string date today)) (Map_values (tables s)), s)"
  by (simp add: getTablesWithReservations_def getTables_def Let_def
      tablesWithReservations_loop_eq)

lemma tableView_fields:
  "table.truncate (tableView s d tbl) = tbl"
  "todayReservations (tableView s d tbl)
     = filter (\<lambda>r. r_tableId r = t_id tbl \<and> r_date r = d) (fst (getReservations s))"
  "currentReservation (tableView s d tbl)
     = find (\<lambda>r. r_status r = ''active'') (todayReservations (tableView s d tbl))"
  by (simp_all add: tableView_def Let_def getReservations_def table.defs
      tableWithReservations.defs)

text \<open>
  C6 as stated fails for the empty string as date: the code then takes
  today's date, and the view of table 2 lists the reservation seeded for
  \<open>2024-06-01\<close>, whose date is not the supplied one.
\<close>

theorem getTablesWithReservations_empty_date_counterexample:
  "t_id (table.truncate (fst (getTablesWithReservations exampleToday exampleStore (Some [])) ! 1)) = 2 \<and>
   map r_tableId
     (todayReservations (fst (getTablesWithReservations exampleToday exampleStore (Some [])) ! 1))
     = [2] \<and>
   map r_date
     (todayReservations (fst (getTablesWithReservations exampleToday exampleStore (Some [])) ! 1))
     = [''2024-06-01'']"
  by code_simp

text \<open>
  C6, amended. For a supplied date \<open>d\<close> that is not the empty string the
  result has one view per table, in the order of \<open>getTables\<close>; when the date
  is omitted or is the empty string the same holds with today's date for
  \<open>d\<close>. The view of a table carries the table's own fields, as
  \<open>todayReservations\<close> the reservations of the store, in store order, with
  that table's id and date \<open>d\<close>, and as \<open>currentReservation\<close> the first of
  these whose status is \<open>active\<close>, or nothing.
\<close>

theorem getTablesWithReservations_views:
  "(d \<noteq> [] \<longrightarrow>
      fst (getTablesWithReservations today s (Some d))
        = map (tableView s d) (fst (getTables s))) \<and>
   fst (getTablesWithReservations today s None)
     = map (tableView s today) (fst (getTables s)) \<and>
   fst (getTablesWithReservations today s (Some []))
     = map (tableView s today) (fst (getTables s)) \<and>
   (\<forall>e tbl.
      table.truncate (tableView s e tbl) = tbl \<and>
      todayReservations (tableView s e tbl)
        = filter (\<lambda>r. r_tableId r = t_id tbl \<and> r_date r = e) (fst (getReservations s)) \<and>
      currentReservation (tableView s e tbl)
        = find (\<lambda>r. r_status r = ''active'') (todayReservations (tableView s e tbl)))"
  by (simp add: getTablesWithReservations_eq getTables_def or_string_def tableView_fields)

theorem getTablesWithReservations_views_witness:
  "exampleToday \<noteq> [] \<and>
   fst (getTablesWithReservations ''2024-06-02'' exampleStore (Some exampleToday))
     = map (tableView exampleStore exampleToday) (fst (getTables exampleStore)) \<and>
   map t_id (map table.truncate
     (fst (getTablesWithReservations ''2024-06-02'' exampleStore (Some exampleToday))))
     = [1, 2, 3, 4, 5, 6, 7, 8, 9, 10, 11, 12, 13, 14, 15] \<and>
   map (\<lambda>v. map r_id (todayReservations v))
     (fst (getTablesWithReservations ''2024-06-02'' exampleStore (Some exampleToday)))
     = [[], [1], [2], [], [3], [], [], [], [], [], [], [], [], [], []]"
proof -
  have h: "exampleToday \<noteq> []"
    by (simp add: exampleToday_def)
  have ids: "map t_id (map table.truncate
               (fst (getTablesWithReservations ''2024-06-02'' exampleStore (Some exampleToday))))
             = [1, 2, 3, 4, 5, 6, 7, 8, 9, 10, 11, 12, 13, 14, 15]"
    by code_simp
  have rs: "map (\<lambda>v. map r_id (todayReservations v))
              (fst (getTablesWithReservations ''2024-06-02'' exampleStore (Some exampleToday)))
            = [[], [1], [2], [], [3], [], [], [], [], [], [], [], [], [], []]"
    by code_simp
  from getTablesWithReservations_views [of exampleToday "''2024-06-02''" exampleStore] h
  have "fst (getTablesWithReservations ''2024-06-02'' exampleStore (Some exampleToday))
          = map (tableView exampleStore exampleToday) (fst (getTables exampleStore))"
    by blast
  with h ids rs show ?thesis
    by blast
qed

text \<open>
  C9. \<open>getTablesWithReservations\<close> returns the store it was given: tables,
  reservations and counters are what they were, for every date argument.
\<close>

theorem getTablesWithReservations_pure:
  "snd (getTablesWithReservations today s date) = s"
  by (simp add: getTablesWithReservations_eq)


end
